theory Spec2Isabelle
  imports Complex_Main "HOL-Library.Word"
begin

section \<open>JavaScript values\<close>

text \<open>
  The dashboard is JavaScript. Its objects are modelled as records whose fields are
  optional: \<open>None\<close> stands for a property that is \<open>undefined\<close> or \<open>null\<close> (the code never
  tells the two apart in the functions embedded here). Numbers are modelled as reals, so
  the arithmetic is the exact arithmetic that the IEEE doubles of the program approximate;
  \<open>NaN\<close>, which \<open>parseInt\<close> can produce, is a value of its own. A string is a list of
  characters, a character standing for the code unit that \<open>charCodeAt\<close> returns
  (code units 0 to 255).
\<close>

datatype jsnumber = NaN | Num real

text \<open>Truthiness of an optional number, of a \<open>jsnumber\<close> and of an optional string.\<close>

definition truthyNum :: "real option \<Rightarrow> bool" where
  "truthyNum x = (case x of None \<Rightarrow> False | Some r \<Rightarrow> r \<noteq> 0)"

definition truthyJs :: "jsnumber option \<Rightarrow> bool" where
  "truthyJs x = (case x of None \<Rightarrow> False | Some NaN \<Rightarrow> False | Some (Num r) \<Rightarrow> r \<noteq> 0)"

definition truthyStr :: "string option \<Rightarrow> bool" where
  "truthyStr x = (case x of None \<Rightarrow> False | Some s \<Rightarrow> s \<noteq> [])"

text \<open>\<open>Math.floor\<close>: \<open>NaN\<close> stays \<open>NaN\<close>.\<close>

fun mathFloor :: "jsnumber \<Rightarrow> jsnumber" where
  "mathFloor NaN = NaN"
| "mathFloor (Num x) = Num (of_int \<lfloor>x\<rfloor>)"

fun isInteger :: "jsnumber \<Rightarrow> bool" where
  "isInteger NaN = False"
| "isInteger (Num x) = (x = of_int \<lfloor>x\<rfloor>)"

text \<open>The decimal digits of an index, as the template literal \<open>`vehicle-${index}`\<close> prints it.\<close>

fun digitsOf :: "nat \<Rightarrow> string" where
  "digitsOf n =
     (if n < 10 then [char_of (48 + n)]
      else digitsOf (n div 10) @ [char_of (48 + n mod 10)])"

declare digitsOf.simps [simp del]

section \<open>Vehicles and the position cache (AnimatedVehicleMap.jsx)\<close>

record stopCoords =
  stopLat :: real
  stopLon :: real

text \<open>
  A vehicle object: the fields that the functions below read or write. The fields
  \<open>currentLat\<close>, \<open>currentLon\<close> and \<open>vehicleIndex\<close> are absent from what the backend sends and
  are set by the processing step. The field \<open>id\<close> of the source is \<open>id_f\<close> here. The
  bearing is a string, as the arrivals feed of TfL delivers it and as the code takes it,
  which passes it to \<open>parseInt\<close>.
\<close>

record vehicle =
  vehicleId :: "string option"
  id_f :: "string option"
  lat :: "real option"
  lon :: "real option"
  heading :: "jsnumber option"
  bearing :: "string option"
  direction :: "string option"
  lineName :: "string option"
  currentLocation :: "string option"
  timeToStation :: "real option"
  lastUpdated :: "string option"
  hasRealPosition :: "bool option"
  positionSource :: "string option"
  nextStopCoords :: "stopCoords option"
  currentLat :: "real option"
  currentLon :: "real option"
  vehicleIndex :: "nat option"

text \<open>An entry of \<open>vehiclePositionCache\<close>: \<open>{lat, lon, baseLat, baseLon}\<close>.\<close>

record cachedPos =
  posLat :: real
  posLon :: real
  baseLat :: real
  baseLon :: real

type_synonym cache = "string \<rightharpoonup> cachedPos"

text \<open>\<open>const vehicleId = vehicle.vehicleId || `vehicle-${index}`\<close>\<close>

definition vehicleKey :: "vehicle \<Rightarrow> nat \<Rightarrow> string" where
  "vehicleKey v index =
     (case vehicleId v of
        Some s \<Rightarrow> (if s \<noteq> [] then s else ''vehicle-'' @ digitsOf index)
      | None \<Rightarrow> ''vehicle-'' @ digitsOf index)"

text \<open>\<open>selectedVehicle && selectedVehicle.vehicleId === vehicleId\<close>\<close>

definition isSelected :: "vehicle option \<Rightarrow> string \<Rightarrow> bool" where
  "isSelected sel key = (case sel of None \<Rightarrow> False | Some s \<Rightarrow> vehicleId s = Some key)"

definition hasValidCoords :: "vehicle \<Rightarrow> bool" where
  "hasValidCoords v =
     (case (lat v, lon v) of
        (Some la, Some lo) \<Rightarrow> la \<noteq> 0 \<and> lo \<noteq> 0 \<and> \<bar>la\<bar> > 0.1 \<and> \<bar>lo\<bar> > 0.1
      | _ \<Rightarrow> False)"

subsection \<open>The hash of a vehicle id\<close>

text \<open>
  \<open>hash << 5\<close> converts \<open>hash\<close> to a 32-bit integer, shifts it and reads the result as a
  signed 32-bit integer; the subtraction and the addition around it are those of numbers,
  with no wrap-around.
\<close>

definition shl5 :: "int \<Rightarrow> int" where
  "shl5 h = sint (push_bit 5 (word_of_int h :: 32 word))"

fun hashLoop :: "int \<Rightarrow> string \<Rightarrow> int" where
  "hashLoop hash [] = hash"
| "hashLoop hash (c # cs) = hashLoop (int (of_char c) + (shl5 hash - hash)) cs"

definition idHash :: "string \<Rightarrow> int" where
  "idHash key = \<bar>hashLoop 0 key\<bar>"

subsection \<open>The spread of vehicles that share coordinates\<close>

definition sameCoord :: "real \<Rightarrow> real \<Rightarrow> vehicle \<Rightarrow> bool" where
  "sameCoord bLat bLon v =
     (case (lat v, lon v) of
        (Some la, Some lo) \<Rightarrow> \<bar>la - bLat\<bar> < 0.0001 \<and> \<bar>lo - bLon\<bar> < 0.0001
      | _ \<Rightarrow> False)"

definition sameCoordCount :: "vehicle list \<Rightarrow> real \<Rightarrow> real \<Rightarrow> nat" where
  "sameCoordCount vehicles bLat bLon = length (filter (sameCoord bLat bLon) vehicles)"

definition spreadMultiplier :: "nat \<Rightarrow> nat" where
  "spreadMultiplier count =
     (if count > 50 then 10
      else if count > 20 then 7
      else if count > 10 then 5
      else if count > 5 then 3
      else 1)"

definition jitterAngle :: "int \<Rightarrow> nat \<Rightarrow> real" where
  "jitterAngle hash index = real_of_int (hash mod 360) * (pi / 180) + real index * 0.05"

definition jitterRadius :: "int \<Rightarrow> nat \<Rightarrow> real" where
  "jitterRadius hash mult = 0.005 * real mult + (real_of_int (hash mod 100) / 100) * 0.003"

subsection \<open>The fallback position around central London\<close>

definition fallbackLat :: "int \<Rightarrow> nat \<Rightarrow> real" where
  "fallbackLat hash index =
     51.5074 + (real_of_int (hash mod 1000) / 1000 - 0.5) * 0.15 + sin (real index * 0.618) * 0.02"

definition fallbackLon :: "int \<Rightarrow> nat \<Rightarrow> real" where
  "fallbackLon hash index =
     - 0.1278 + (real_of_int ((hash * 7) mod 1000) / 1000 - 0.5) * 0.2 + cos (real index * 0.618) * 0.02"

subsection \<open>The heading\<close>

definition isStrWhiteSpace :: "char \<Rightarrow> bool" where
  "isStrWhiteSpace c = (of_char c \<in> {9, 10, 11, 12, 13, 32, 160 :: nat})"

definition digitVal :: "char \<Rightarrow> nat" where
  "digitVal c =
     (let n = of_char c :: nat in
      if 48 \<le> n \<and> n \<le> 57 then n - 48
      else if 97 \<le> n \<and> n \<le> 122 then n - 87
      else if 65 \<le> n \<and> n \<le> 90 then n - 55
      else 36)"

text \<open>The value of the longest prefix of digits of the radix; \<open>None\<close> when it is empty.\<close>

fun digitsValue :: "nat \<Rightarrow> nat option \<Rightarrow> string \<Rightarrow> nat option" where
  "digitsValue radix acc [] = acc"
| "digitsValue radix acc (c # cs) =
     (if digitVal c < radix
      then digitsValue radix (Some ((case acc of None \<Rightarrow> 0 | Some a \<Rightarrow> a) * radix + digitVal c)) cs
      else acc)"

text \<open>
  \<open>parseInt(string)\<close> with no radix: leading white space and a sign are skipped, a prefix
  \<open>0x\<close> or \<open>0X\<close> selects radix 16, and the longest prefix of digits is read; with no
  digit the result is \<open>NaN\<close>.
\<close>

definition parseInt :: "string \<Rightarrow> jsnumber" where
  "parseInt str =
     (let s = dropWhile isStrWhiteSpace str;
          sign = (if s \<noteq> [] \<and> hd s = CHR ''-'' then - 1 else 1 :: int);
          s1 = (if s \<noteq> [] \<and> (hd s = CHR ''+'' \<or> hd s = CHR ''-'') then tl s else s);
          hex = (take 2 s1 = ''0x'' \<or> take 2 s1 = ''0X'');
          s2 = (if hex then drop 2 s1 else s1)
      in case digitsValue (if hex then 16 else 10) None s2 of
           None \<Rightarrow> NaN
         | Some n \<Rightarrow> Num (of_int (sign * int n)))"

text \<open>
  \<open>vehicle.heading || (vehicle.bearing ? parseInt(vehicle.bearing)
       : (vehicle.direction === 'inbound' ? 180 : 0))\<close>
\<close>

definition headingOf :: "vehicle \<Rightarrow> jsnumber" where
  "headingOf v =
     (if truthyJs (heading v) then (case heading v of Some h \<Rightarrow> h | None \<Rightarrow> NaN)
      else if truthyStr (bearing v) then (case bearing v of Some b \<Rightarrow> parseInt b | None \<Rightarrow> NaN)
      else if direction v = Some ''inbound'' then Num 180 else Num 0)"

subsection \<open>Processing one vehicle: the callback of \<open>vehicles.map\<close>\<close>

text \<open>
  The coordinates chosen for a vehicle, and the cache after the choice. With valid
  coordinates (\<open>validPosition\<close>): the selected vehicle takes its cached position, or its
  reported one when it has none, which is then cached; any other vehicle takes its cached
  position when the cached base is within 0.001 of the reported coordinates, and a
  jittered position, which is then cached, otherwise. Without valid coordinates
  (\<open>generatedPosition\<close>): the cached position, or one generated around central London,
  which is then cached.
\<close>

definition jitterPosition :: "vehicle list \<Rightarrow> string \<Rightarrow> nat \<Rightarrow> real \<Rightarrow> real \<Rightarrow> real \<times> real" where
  "jitterPosition vehicles key index bLat bLon =
     (let hash = idHash key;
          mult = spreadMultiplier (sameCoordCount vehicles bLat bLon);
          angle = jitterAngle hash index;
          radius = jitterRadius hash mult
      in (bLat + sin angle * radius, bLon + cos angle * radius))"

definition cacheSet :: "cache \<Rightarrow> string \<Rightarrow> real \<times> real \<Rightarrow> real \<Rightarrow> real \<Rightarrow> cache" where
  "cacheSet cache key p bLat bLon =
     cache(key \<mapsto> \<lparr>posLat = fst p, posLon = snd p, baseLat = bLat, baseLon = bLon\<rparr>)"

definition validPosition ::
  "vehicle option \<Rightarrow> vehicle list \<Rightarrow> cache \<Rightarrow> string \<Rightarrow> nat \<Rightarrow> real \<Rightarrow> real \<Rightarrow> (real \<times> real) \<times> cache" where
  "validPosition selectedVehicle vehicles cache key index bLat bLon =
     (if isSelected selectedVehicle key \<and> cache key \<noteq> None then
        (case cache key of
           Some c \<Rightarrow> ((posLat c, posLon c), cache)
         | None \<Rightarrow> ((bLat, bLon), cache))
      else if isSelected selectedVehicle key then
        ((bLat, bLon), cacheSet cache key (bLat, bLon) bLat bLon)
      else
        (case cache key of
           Some c \<Rightarrow>
             (if \<bar>baseLat c - bLat\<bar> < 0.001 \<and> \<bar>baseLon c - bLon\<bar> < 0.001
                then ((posLat c, posLon c), cache)
              else (jitterPosition vehicles key index bLat bLon,
                    cacheSet cache key (jitterPosition vehicles key index bLat bLon) bLat bLon))
         | None \<Rightarrow>
             (jitterPosition vehicles key index bLat bLon,
              cacheSet cache key (jitterPosition vehicles key index bLat bLon) bLat bLon)))"

definition generatedPosition :: "cache \<Rightarrow> string \<Rightarrow> nat \<Rightarrow> (real \<times> real) \<times> cache" where
  "generatedPosition cache key index =
     (case cache key of
        Some c \<Rightarrow> ((posLat c, posLon c), cache)
      | None \<Rightarrow>
          ((fallbackLat (idHash key) index, fallbackLon (idHash key) index),
           cacheSet cache key (fallbackLat (idHash key) index, fallbackLon (idHash key) index)
             51.5074 (- 0.1278)))"

definition positionOf ::
  "vehicle option \<Rightarrow> vehicle list \<Rightarrow> cache \<Rightarrow> vehicle \<Rightarrow> nat \<Rightarrow> (real \<times> real) \<times> cache" where
  "positionOf selectedVehicle vehicles cache v index =
     (case (lat v, lon v) of
        (Some bLat, Some bLon) \<Rightarrow>
          (if hasValidCoords v
             then validPosition selectedVehicle vehicles cache (vehicleKey v index) index bLat bLon
           else generatedPosition cache (vehicleKey v index) index)
      | _ \<Rightarrow> generatedPosition cache (vehicleKey v index) index)"

text \<open>\<open>vehicle.id || vehicle.vehicleId || `vehicle-${index}`\<close>\<close>

definition displayId :: "vehicle \<Rightarrow> nat \<Rightarrow> string" where
  "displayId v index =
     (if truthyStr (id_f v) then (case id_f v of Some s \<Rightarrow> s | None \<Rightarrow> [])
      else vehicleKey v index)"

definition sourceOf :: "vehicle \<Rightarrow> string" where
  "sourceOf v =
     (if truthyStr (positionSource v) then (case positionSource v of Some s \<Rightarrow> s | None \<Rightarrow> [])
      else if hasRealPosition v = Some True then ''text_location'' else ''simulated'')"

definition processVehicle ::
  "vehicle option \<Rightarrow> vehicle list \<Rightarrow> cache \<Rightarrow> vehicle \<Rightarrow> nat \<Rightarrow> vehicle \<times> cache" where
  "processVehicle selectedVehicle vehicles cache v index =
     (let (p, cache') = positionOf selectedVehicle vehicles cache v index
      in (v\<lparr>id_f := Some (displayId v index),
            currentLat := Some (fst p),
            currentLon := Some (snd p),
            lat := Some (fst p),
            lon := Some (snd p),
            heading := Some (mathFloor (headingOf v)),
            hasRealPosition := Some (hasRealPosition v = Some True),
            vehicleIndex := Some index,
            positionSource := Some (sourceOf v)\<rparr>,
          cache'))"

text \<open>
  \<open>vehicles.map((vehicle, index) => ...)\<close>: the callback runs on the elements in order,
  each run seeing the cache as the runs before it left it.
\<close>

fun processFrom ::
  "vehicle option \<Rightarrow> vehicle list \<Rightarrow> nat \<Rightarrow> vehicle list \<Rightarrow> cache \<Rightarrow> vehicle list \<times> cache" where
  "processFrom selectedVehicle vehicles index [] cache = ([], cache)"
| "processFrom selectedVehicle vehicles index (v # vs) cache =
     (let (pv, cache1) = processVehicle selectedVehicle vehicles cache v index;
          (pvs, cache2) = processFrom selectedVehicle vehicles (Suc index) vs cache1
      in (pv # pvs, cache2))"

definition processVehicles :: "vehicle option \<Rightarrow> vehicle list \<Rightarrow> cache \<Rightarrow> vehicle list \<times> cache" where
  "processVehicles selectedVehicle vehicles cache =
     processFrom selectedVehicle vehicles 0 vehicles cache"

subsection \<open>The update of the selected vehicle\<close>





section \<open>The marker animation of the vehicle modal (VehicleMapModal)\<close>

text \<open>\<open>prevPosRef.current\<close>; its time stamp is written and never read, and is left out.\<close>

record prevPos =
  prevLat :: "real option"
  prevLon :: "real option"
  prevTimeToStation :: real

text \<open>The reference as the component creates it.\<close>

definition initialPrevPos :: "vehicle \<Rightarrow> prevPos" where
  "initialPrevPos v =
     \<lparr>prevLat = lat v, prevLon = lon v,
      prevTimeToStation = (case timeToStation v of Some t \<Rightarrow> t | None \<Rightarrow> 0)\<rparr>"

definition currentTimeToStation :: "vehicle \<Rightarrow> real" where
  "currentTimeToStation v = (case timeToStation v of Some t \<Rightarrow> t | None \<Rightarrow> 0)"

definition currentLatOf :: "vehicle \<Rightarrow> real" where
  "currentLatOf v = (if truthyNum (lat v) then (case lat v of Some x \<Rightarrow> x | None \<Rightarrow> 51.5074) else 51.5074)"

definition currentLonOf :: "vehicle \<Rightarrow> real" where
  "currentLonOf v = (if truthyNum (lon v) then (case lon v of Some x \<Rightarrow> x | None \<Rightarrow> - 0.1278) else - 0.1278)"

text \<open>
  The condition of the animation:
  \<open>prevData.timeToStation > currentTimeToStation && vehicle.nextStopCoords && prevData.lat && prevData.lon\<close>
\<close>

definition animates :: "prevPos \<Rightarrow> vehicle \<Rightarrow> bool" where
  "animates prevData v =
     (prevTimeToStation prevData > currentTimeToStation v \<and> nextStopCoords v \<noteq> None \<and>
      truthyNum (prevLat prevData) \<and> truthyNum (prevLon prevData))"

text \<open>\<open>Math.min(1, timeDiff / maxTime)\<close> with \<open>maxTime = prevData.timeToStation || 60\<close>\<close>

definition timeProgress :: "real \<Rightarrow> real \<Rightarrow> real" where
  "timeProgress prevTime currTime =
     (let timeDiff = prevTime - currTime;
          maxTime = (if prevTime \<noteq> 0 then prevTime else 60)
      in min 1 (timeDiff / maxTime))"

definition eased :: "real \<Rightarrow> real" where
  "eased t = 1 - (1 - t) * (1 - t)"

text \<open>The fraction of the 2000 ms of the animation that has passed at a frame.\<close>

definition frameProgress :: "real \<Rightarrow> real \<Rightarrow> real" where
  "frameProgress start timestamp = min 1 ((timestamp - start) / 2000)"

text \<open>The position that the frame at fraction \<open>t\<close> gives the marker.\<close>

definition framePosition :: "real \<times> real \<Rightarrow> real \<times> real \<Rightarrow> real \<Rightarrow> real \<Rightarrow> real \<times> real" where
  "framePosition from to progress t =
     (fst from + (fst to - fst from) * eased t * progress,
      snd from + (snd to - snd from) * eased t * progress)"

text \<open>
  What the effect does to the marker: it starts an animation from the previous position
  toward the next stop, or sets the position, or leaves it.
\<close>

datatype markerUpdate =
  Animation "real \<times> real" "real \<times> real" real
| Direct "real \<times> real"
| Unchanged

definition markerEffect :: "prevPos \<Rightarrow> vehicle \<Rightarrow> markerUpdate" where
  "markerEffect prevData v =
     (if animates prevData v then
        (case (prevLat prevData, prevLon prevData, nextStopCoords v) of
           (Some pla, Some plo, Some n) \<Rightarrow>
             Animation (pla, plo) (stopLat n, stopLon n)
               (timeProgress (prevTimeToStation prevData) (currentTimeToStation v))
         | _ \<Rightarrow> Unchanged)
      else if prevLat prevData \<noteq> Some (currentLatOf v) \<or> prevLon prevData \<noteq> Some (currentLonOf v) then
        Direct (currentLatOf v, currentLonOf v)
      else Unchanged)"

text \<open>A point of the segment between two points.\<close>

definition onSegment :: "real \<times> real \<Rightarrow> real \<times> real \<Rightarrow> real \<times> real \<Rightarrow> bool" where
  "onSegment a b p =
     (\<exists>s. 0 \<le> s \<and> s \<le> 1 \<and> p = (fst a + s * (fst b - fst a), snd a + s * (snd b - snd a)))"

section \<open>The list of live vehicles (LiveVehicles)\<close>

record liveState =
  vehicles :: "vehicle list"
  isInitialLoad :: bool
  error :: "string option"
  selectedVehicle :: "vehicle option"

text \<open>
  The outcome of a run of \<open>fetchVehicles\<close>: the request is rejected with a message, or the
  response is not ok, or reading its body is rejected with a message, or the body holds a
  list of vehicles.
\<close>

datatype fetchOutcome =
  FetchRejected string
| ResponseNotOk
| BodyRejected string
| ResponseOk "vehicle list"

text \<open>\<open>data.find(v => v.vehicleId === prev.vehicleId)\<close> and \<open>found || prev\<close>\<close>

definition refreshSelected :: "vehicle list \<Rightarrow> vehicle option \<Rightarrow> vehicle option" where
  "refreshSelected data prev =
     (case prev of
        None \<Rightarrow> None
      | Some p \<Rightarrow>
          (case find (\<lambda>v. vehicleId v = vehicleId p) data of
             Some found \<Rightarrow> Some found
           | None \<Rightarrow> Some p))"

definition finishLoad :: "liveState \<Rightarrow> liveState" where
  "finishLoad st = (if isInitialLoad st then st\<lparr>isInitialLoad := False\<rparr> else st)"

definition fetchVehicles :: "fetchOutcome \<Rightarrow> liveState \<Rightarrow> liveState" where
  "fetchVehicles outcome st =
     finishLoad
       (case outcome of
          ResponseOk data \<Rightarrow>
            st\<lparr>vehicles := data, error := None,
               selectedVehicle := refreshSelected data (selectedVehicle st)\<rparr>
        | FetchRejected msg \<Rightarrow> st\<lparr>error := Some msg\<rparr>
        | ResponseNotOk \<Rightarrow> st\<lparr>error := Some ''Failed to fetch vehicles''\<rparr>
        | BodyRejected msg \<Rightarrow> st\<lparr>error := Some msg\<rparr>)"

datatype screen = LoadingScreen | ErrorScreen string | VehicleGrid "vehicle list"

definition render :: "liveState \<Rightarrow> screen" where
  "render st =
     (if isInitialLoad st then LoadingScreen
      else if truthyStr (error st) \<and> vehicles st = []
        then ErrorScreen (case error st of Some e \<Rightarrow> e | None \<Rightarrow> [])
      else VehicleGrid (vehicles st))"

section \<open>Auxiliary notions for the statements\<close>

text \<open>
  The cache that the callback finds when it processes the vehicle at index \<open>i\<close>: the
  cache as the callbacks for the \<open>i\<close> vehicles before it left it. It is what
  \<open>vehiclePositionCache.current.get(vehicleId)\<close> reads for that vehicle.
\<close>

definition cacheBefore :: "vehicle option \<Rightarrow> vehicle list \<Rightarrow> cache \<Rightarrow> nat \<Rightarrow> cache" where
  "cacheBefore sel vs cache i = snd (processFrom sel vs 0 (take i vs) cache)"


text \<open>
  The heading as claim C9 words it: the floor of the first truthy value among the reported
  heading, the parsed bearing and the default of the direction. It is compared with
  \<open>headingOf\<close>, which is the code.
\<close>

fun truthyNumber :: "jsnumber \<Rightarrow> bool" where
  "truthyNumber NaN = False"
| "truthyNumber (Num r) = (r \<noteq> 0)"

fun firstTruthy :: "jsnumber list \<Rightarrow> jsnumber \<Rightarrow> jsnumber" where
  "firstTruthy [] d = d"
| "firstTruthy (x # xs) d = (if truthyNumber x then x else firstTruthy xs d)"

definition claimedHeading :: "vehicle \<Rightarrow> jsnumber" where
  "claimedHeading v =
     mathFloor
       (firstTruthy
          ((case heading v of Some h \<Rightarrow> [h] | None \<Rightarrow> []) @
           (case bearing v of Some b \<Rightarrow> [parseInt b] | None \<Rightarrow> []))
          (if direction v = Some ''inbound'' then Num 180 else Num 0))"

text \<open>
  The cache keys of the vehicles of a list, in its order; \<open>keysFrom k\<close> for a part of a
  list that starts at index \<open>k\<close>.
\<close>

definition keysFrom :: "nat \<Rightarrow> vehicle list \<Rightarrow> string list" where
  "keysFrom k vs = map (\<lambda>(j, v). vehicleKey v j) (enumerate k vs)"

definition keysOf :: "vehicle list \<Rightarrow> string list" where
  "keysOf vs = keysFrom 0 vs"

text \<open>An object with none of the properties, and some vehicles and a cache entry to run the definitions on.\<close>

definition noProperties :: vehicle where
  "noProperties =
     \<lparr>vehicleId = None, id_f = None, lat = None, lon = None, heading = None, bearing = None,
      direction = None, lineName = None, currentLocation = None, timeToStation = None,
      lastUpdated = None, hasRealPosition = None, positionSource = None,
      nextStopCoords = None, currentLat = None, currentLon = None, vehicleIndex = None\<rparr>"

definition busA :: vehicle where
  "busA = noProperties\<lparr>vehicleId := Some ''A'', lat := Some 51.5, lon := Some (- 0.12)\<rparr>"

definition busB :: vehicle where
  "busB = noProperties\<lparr>vehicleId := Some ''B'', lat := Some 51.5, lon := Some (- 0.12)\<rparr>"

definition lostBus :: vehicle where
  "lostBus = noProperties\<lparr>vehicleId := Some ''BUS1'', lat := Some 0, lon := Some 0\<rparr>"

definition atA :: cachedPos where
  "atA = \<lparr>posLat = 51.501, posLon = - 0.119, baseLat = 51.5, baseLon = - 0.12\<rparr>"

definition cacheA :: cache where
  "cacheA = [''A'' \<mapsto> atA]"




definition zeroBearing :: vehicle where
  "zeroBearing = noProperties\<lparr>bearing := Some ''0'', direction := Some ''inbound''\<rparr>"

definition letterBearing :: vehicle where
  "letterBearing = noProperties\<lparr>bearing := Some ''N''\<rparr>"

definition loadedState :: liveState where
  "loadedState =
     \<lparr>vehicles = [busA, busB], isInitialLoad = False, error = None, selectedVehicle = Some busA\<rparr>"

definition startState :: liveState where
  "startState = \<lparr>vehicles = [], isInitialLoad = True, error = None, selectedVehicle = None\<rparr>"

text \<open>A vehicle of the modal, one minute from its next stop.\<close>

definition movingBus :: vehicle where
  "movingBus = noProperties\<lparr>vehicleId := Some ''A'', lat := Some 51.5, lon := Some (- 0.12),
     timeToStation := Some 60, nextStopCoords := Some \<lparr>stopLat = 51.6, stopLon = - 0.2\<rparr>\<rparr>"

section \<open>Theorems\<close>

text \<open>
  C10. The spread multiplier is a non-decreasing function of the number of vehicles that
  share the coordinates, and it is 1 for a count of at most 5, 3 for 6 to 10, 5 for 11 to
  20, 7 for 21 to 50 and 10 above 50.
\<close>

theorem spreadMultiplier_monotone_values:
  "mono spreadMultiplier \<and>
   spreadMultiplier n =
     (if n \<le> 5 then 1 else if n \<le> 10 then 3 else if n \<le> 20 then 5 else if n \<le> 50 then 7 else 10)"
  by (simp add: spreadMultiplier_def mono_def)

subsection \<open>Processing a list of vehicles\<close>

lemma processFrom_append:
  "processFrom sel all k (xs @ ys) cache =
     (let (ps, c1) = processFrom sel all k xs cache;
          (qs, c2) = processFrom sel all (k + length xs) ys c1
      in (ps @ qs, c2))"
  by (induction xs arbitrary: k cache) (auto split: prod.splits)

lemma processFrom_Cons:
  "processFrom sel all k (v # vs) cache =
     (fst (processVehicle sel all cache v k) #
        fst (processFrom sel all (Suc k) vs (snd (processVehicle sel all cache v k))),
      snd (processFrom sel all (Suc k) vs (snd (processVehicle sel all cache v k))))"
  by (simp split: prod.splits)

lemma processFrom_length: "length (fst (processFrom sel all k vs cache)) = length vs"
  by (induction vs arbitrary: k cache) (simp_all add: processFrom_Cons del: processFrom.simps(2))

text \<open>
  The vehicle at index \<open>i\<close> is processed with the cache that the vehicles before it left,
  and the vehicles after it go on from the cache that it leaves.
\<close>

lemma processVehicles_nth:
  assumes "i < length vs"
  shows "fst (processVehicles sel vs cache) ! i =
           fst (processVehicle sel vs (cacheBefore sel vs cache i) (vs ! i) i)"
    and "cacheBefore sel vs cache (Suc i) =
           snd (processVehicle sel vs (cacheBefore sel vs cache i) (vs ! i) i)"
    and "snd (processVehicles sel vs cache) =
           snd (processFrom sel vs (Suc i) (drop (Suc i) vs) (cacheBefore sel vs cache (Suc i)))"
proof -
  obtain ps c1 where p: "processFrom sel vs 0 (take i vs) cache = (ps, c1)"
    by (cases "processFrom sel vs 0 (take i vs) cache")
  obtain pv c2 where s: "processVehicle sel vs c1 (vs ! i) i = (pv, c2)"
    by (cases "processVehicle sel vs c1 (vs ! i) i")
  obtain qs c3 where q: "processFrom sel vs (Suc i) (drop (Suc i) vs) c2 = (qs, c3)"
    by (cases "processFrom sel vs (Suc i) (drop (Suc i) vs) c2")
  have lp: "length ps = i"
    using processFrom_length [of sel vs 0 "take i vs" cache] p assms by simp
  have t: "processFrom sel vs 0 (take i vs @ [vs ! i]) cache = (ps @ [pv], c2)"
    using assms by (simp add: processFrom_append p s min_absorb2)
  have "processFrom sel vs 0 ((take i vs @ [vs ! i]) @ drop (Suc i) vs) cache = ((ps @ [pv]) @ qs, c3)"
    unfolding processFrom_append [of _ _ _ "take i vs @ [vs ! i]"] t using assms q
    by (simp add: min_absorb2)
  moreover have "(take i vs @ [vs ! i]) @ drop (Suc i) vs = vs"
    using assms by (simp add: id_take_nth_drop [symmetric])
  ultimately have w: "processVehicles sel vs cache = (ps @ pv # qs, c3)"
    by (simp add: processVehicles_def)
  have b: "cacheBefore sel vs cache i = c1" by (simp add: cacheBefore_def p)
  have a: "cacheBefore sel vs cache (Suc i) = c2"
    using assms t by (simp add: cacheBefore_def take_Suc_conv_app_nth)
  show "fst (processVehicles sel vs cache) ! i =
           fst (processVehicle sel vs (cacheBefore sel vs cache i) (vs ! i) i)"
    using w lp s b by (simp add: nth_append)
  show "cacheBefore sel vs cache (Suc i) =
           snd (processVehicle sel vs (cacheBefore sel vs cache i) (vs ! i) i)"
    using a b s by simp
  show "snd (processVehicles sel vs cache) =
           snd (processFrom sel vs (Suc i) (drop (Suc i) vs) (cacheBefore sel vs cache (Suc i)))"
    using w a q by simp
qed

lemma processVehicle_position:
  "currentLat (fst (processVehicle sel all cache v i)) = Some (fst (fst (positionOf sel all cache v i)))"
  "currentLon (fst (processVehicle sel all cache v i)) = Some (snd (fst (positionOf sel all cache v i)))"
  "snd (processVehicle sel all cache v i) = snd (positionOf sel all cache v i)"
  by (simp_all add: processVehicle_def split: prod.splits)

text \<open>Every write goes to the key of the vehicle at hand.\<close>

lemma positionOf_frame:
  "key \<noteq> vehicleKey v i \<Longrightarrow> snd (positionOf sel all cache v i) key = cache key"
  by (auto simp: positionOf_def validPosition_def generatedPosition_def cacheSet_def
      split: option.splits)

lemma processFrom_frame:
  "key \<notin> set (keysFrom k vs) \<Longrightarrow> snd (processFrom sel all k vs cache) key = cache key"
proof (induction vs arbitrary: k cache)
  case Nil
  show ?case by simp
next
  case (Cons v vs)
  let ?c1 = "snd (processVehicle sel all cache v k)"
  have "?c1 key = cache key"
    using Cons.prems positionOf_frame [of key v k sel all cache]
    by (simp add: keysFrom_def processVehicle_position)
  moreover have "snd (processFrom sel all (Suc k) vs ?c1) key = ?c1 key"
    using Cons.prems by (intro Cons.IH) (simp add: keysFrom_def)
  ultimately show ?case by (simp add: processFrom_Cons del: processFrom.simps(2))
qed

lemma cacheBefore_frame:
  "key \<notin> set (keysOf (take i vs)) \<Longrightarrow> cacheBefore sel vs cache i key = cache key"
  unfolding cacheBefore_def keysOf_def by (rule processFrom_frame)

lemmas sample_defs = busA_def busB_def lostBus_def atA_def cacheA_def noProperties_def

lemmas step_defs = cacheBefore_def processVehicles_def processVehicle_def positionOf_def
  validPosition_def generatedPosition_def cacheSet_def hasValidCoords_def vehicleKey_def
  isSelected_def keysOf_def keysFrom_def

lemma positionOf_cached:
  assumes "hasValidCoords v" "lat v = Some la" "lon v = Some lo"
    and "cache (vehicleKey v i) = Some c"
    and "\<bar>baseLat c - la\<bar> < 0.001" "\<bar>baseLon c - lo\<bar> < 0.001"
  shows "positionOf sel all cache v i = ((posLat c, posLon c), cache)"
  using assms by (simp add: positionOf_def validPosition_def)

text \<open>
  C1. Position stability. A vehicle of the list with valid reported coordinates, for which
  the callback finds a cache entry (\<open>cachedPos\<close>) whose base coordinates differ from the
  reported ones by less than 0.001 in latitude and in longitude, is displayed exactly at
  the cached position (\<open>currentLat\<close> and \<open>currentLon\<close> are the cached \<open>lat\<close> and \<open>lon\<close>), and
  processing it leaves the cache as it was. This holds for the selected vehicle and for
  the others. The entry found is the entry of the cache before the list is processed when
  no vehicle earlier in the list has the same key, and it is the entry of the cache after
  the list is processed when no vehicle later in the list has the same key.
\<close>

theorem cached_position_stable:
  assumes "i < length vs"
    and "hasValidCoords (vs ! i)"
    and "lat (vs ! i) = Some la" and "lon (vs ! i) = Some lo"
    and "key = vehicleKey (vs ! i) i"
    and "cacheBefore sel vs cache i key = Some c"
    and "\<bar>baseLat c - la\<bar> < 0.001" and "\<bar>baseLon c - lo\<bar> < 0.001"
  shows "currentLat (fst (processVehicles sel vs cache) ! i) = Some (posLat c) \<and>
         currentLon (fst (processVehicles sel vs cache) ! i) = Some (posLon c) \<and>
         cacheBefore sel vs cache (Suc i) = cacheBefore sel vs cache i \<and>
         (key \<notin> set (keysOf (take i vs)) \<longrightarrow> cache key = Some c) \<and>
         (key \<notin> set (keysFrom (Suc i) (drop (Suc i) vs)) \<longrightarrow>
            snd (processVehicles sel vs cache) key = Some c)"
proof -
  let ?ci = "cacheBefore sel vs cache i"
  have p: "positionOf sel vs ?ci (vs ! i) i = ((posLat c, posLon c), ?ci)"
    using assms(2-4) assms(6) [unfolded assms(5)] assms(7,8) by (rule positionOf_cached)
  note n = processVehicles_nth [OF assms(1), of sel cache]
  have a: "cacheBefore sel vs cache (Suc i) = ?ci"
    using n(2) p by (simp add: processVehicle_position)
  have "snd (processVehicles sel vs cache) key = Some c"
    if "key \<notin> set (keysFrom (Suc i) (drop (Suc i) vs))"
    using processFrom_frame [OF that] n(3) a assms(6) by simp
  moreover have "cache key = Some c" if "key \<notin> set (keysOf (take i vs))"
    using cacheBefore_frame [OF that, of sel cache] assms(6) by simp
  ultimately show ?thesis
    using p n(1) a by (simp add: processVehicle_position)
qed

theorem cached_position_stable_witness:
  "1 < length [busB, busA] \<and> hasValidCoords ([busB, busA] ! 1) \<and>
   lat ([busB, busA] ! 1) = Some 51.5 \<and> lon ([busB, busA] ! 1) = Some (- 0.12) \<and>
   ''A'' = vehicleKey ([busB, busA] ! 1) 1 \<and>
   cacheBefore None [busB, busA] cacheA 1 ''A'' = Some atA \<and>
   \<bar>baseLat atA - 51.5\<bar> < 0.001 \<and> \<bar>baseLon atA - (- 0.12)\<bar> < 0.001 \<and>
   ''A'' \<notin> set (keysOf (take 1 [busB, busA])) \<and>
   ''A'' \<notin> set (keysFrom (Suc 1) (drop (Suc 1) [busB, busA])) \<and>
   currentLat (fst (processVehicles None [busB, busA] cacheA) ! 1) = Some (posLat atA) \<and>
   currentLon (fst (processVehicles None [busB, busA] cacheA) ! 1) = Some (posLon atA) \<and>
   cacheA ''A'' = Some atA \<and>
   snd (processVehicles None [busB, busA] cacheA) ''A'' = Some atA"
proof -
  have h: "1 < length [busB, busA]" "hasValidCoords ([busB, busA] ! 1)"
    "lat ([busB, busA] ! 1) = Some 51.5" "lon ([busB, busA] ! 1) = Some (- 0.12)"
    "''A'' = vehicleKey ([busB, busA] ! 1) 1"
    "cacheBefore None [busB, busA] cacheA 1 ''A'' = Some atA"
    "\<bar>baseLat atA - 51.5\<bar> < 0.001" "\<bar>baseLon atA - (- 0.12)\<bar> < 0.001"
    by (simp_all add: step_defs sample_defs)
  have k: "''A'' \<notin> set (keysOf (take 1 [busB, busA]))"
    "''A'' \<notin> set (keysFrom (Suc 1) (drop (Suc 1) [busB, busA]))"
    by (simp_all add: step_defs sample_defs)
  show ?thesis
    using cached_position_stable [OF h] h k by blast
qed

subsection \<open>Generated positions\<close>

lemma positionOf_generated:
  assumes "\<not> hasValidCoords v" and "cache (vehicleKey v i) = None"
  shows "fst (positionOf sel all cache v i) =
           (fallbackLat (idHash (vehicleKey v i)) i, fallbackLon (idHash (vehicleKey v i)) i)"
  using assms by (simp add: positionOf_def generatedPosition_def split: option.splits)

text \<open>The coordinates that are not valid are the missing ones and those of at most 0.1.\<close>

lemma hasValidCoords_iff:
  "hasValidCoords v \<longleftrightarrow>
     (\<exists>la lo. lat v = Some la \<and> lon v = Some lo \<and> \<bar>la\<bar> > 0.1 \<and> \<bar>lo\<bar> > 0.1)"
  by (auto simp: hasValidCoords_def split: option.splits)

text \<open>The hash is not negative, so \<open>%\<close> on it is \<open>mod\<close>.\<close>

lemma idHash_nonneg: "0 \<le> idHash key"
  by (simp add: idHash_def)

lemma spread_bound:
  fixes x w s :: real
  assumes "0 \<le> x" "x < 1000" "0 \<le> w" "\<bar>s\<bar> \<le> 1"
  shows "\<bar>c + (x / 1000 - 0.5) * w + s * 0.02 - c\<bar> \<le> w / 2 + 0.02"
proof -
  have "\<bar>x / 1000 - 1 / 2\<bar> \<le> 1 / 2" using assms(1,2) by linarith
  then have "\<bar>x / 1000 - 1 / 2\<bar> * w \<le> (1 / 2) * w" using assms(3) by (rule mult_right_mono)
  then have a: "\<bar>(x / 1000 - 0.5) * w\<bar> \<le> w / 2" using assms(3) by (simp add: abs_mult)
  have "\<bar>s\<bar> * 0.02 \<le> 1 * (0.02 :: real)" using assms(4) by (intro mult_right_mono) simp_all
  then have b: "\<bar>s * 0.02\<bar> \<le> 0.02" by (simp add: abs_mult)
  from a b show ?thesis by linarith
qed

lemma fallback_box:
  "\<bar>fallbackLat h i - 51.5074\<bar> \<le> 0.075 + 0.02" "\<bar>fallbackLon h i - (- 0.1278)\<bar> \<le> 0.1 + 0.02"
proof -
  have r: "0 \<le> real_of_int (k mod 1000)" "real_of_int (k mod 1000) < 1000" for k :: int
  proof -
    have "0 \<le> k mod 1000" "k mod 1000 < 1000" by simp_all
    then show "0 \<le> real_of_int (k mod 1000)" "real_of_int (k mod 1000) < 1000" by linarith+
  qed
  show "\<bar>fallbackLat h i - 51.5074\<bar> \<le> 0.075 + 0.02"
    using spread_bound [OF r [of h], where w = "0.15" and s = "sin (real i * 0.618)" and c = "51.5074"]
    by (simp add: fallbackLat_def)
  show "\<bar>fallbackLon h i - (- 0.1278)\<bar> \<le> 0.1 + 0.02"
    using spread_bound [OF r [of "h * 7"], where w = "0.2" and s = "cos (real i * 0.618)" and c = "- 0.1278"]
    by (simp add: fallbackLon_def)
qed

text \<open>
  C5. Fallback position. A vehicle whose reported coordinates are not valid (missing,
  null, zero, or at most 0.1 in absolute value) and for which the callback finds no cache
  entry is displayed at the position \<open>fallbackLat\<close>, \<open>fallbackLon\<close> of the hash of its
  id and its index. The position lies within 0.075 + 0.02 of latitude 51.5074 and within
  0.1 + 0.02 of longitude -0.1278. A second run, with any other list, selection and cache,
  on a vehicle of the same id hash at the same index gives the same position.
\<close>

theorem generated_position:
  assumes "i < length vs" and "i < length vs'"
    and "\<not> hasValidCoords (vs ! i)" and "\<not> hasValidCoords (vs' ! i)"
    and "cacheBefore sel vs cache i (vehicleKey (vs ! i) i) = None"
    and "cacheBefore sel' vs' cache' i (vehicleKey (vs' ! i) i) = None"
    and "idHash (vehicleKey (vs ! i) i) = h" and "idHash (vehicleKey (vs' ! i) i) = h"
  shows "currentLat (fst (processVehicles sel vs cache) ! i) = Some (fallbackLat h i) \<and>
         currentLon (fst (processVehicles sel vs cache) ! i) = Some (fallbackLon h i) \<and>
         \<bar>fallbackLat h i - 51.5074\<bar> \<le> 0.075 + 0.02 \<and>
         \<bar>fallbackLon h i - (- 0.1278)\<bar> \<le> 0.1 + 0.02 \<and>
         currentLat (fst (processVehicles sel' vs' cache') ! i) =
           currentLat (fst (processVehicles sel vs cache) ! i) \<and>
         currentLon (fst (processVehicles sel' vs' cache') ! i) =
           currentLon (fst (processVehicles sel vs cache) ! i)"
proof -
  have pos: "currentLat (fst (processVehicles s ws c) ! i) = Some (fallbackLat h i) \<and>
             currentLon (fst (processVehicles s ws c) ! i) = Some (fallbackLon h i)"
    if "i < length ws" "\<not> hasValidCoords (ws ! i)"
      "cacheBefore s ws c i (vehicleKey (ws ! i) i) = None" "idHash (vehicleKey (ws ! i) i) = h"
    for s ws c
    using positionOf_generated [of "ws ! i" "cacheBefore s ws c i" i s ws] that(2-4)
    by (simp add: processVehicles_nth(1) [OF that(1)] processVehicle_position)
  show ?thesis
    using pos [OF assms(1,3,5,7)] pos [OF assms(2,4,6,8)] fallback_box [of h i] by simp
qed

theorem generated_position_witness:
  "1 < length [busA, lostBus] \<and> 1 < length [busB, lostBus\<lparr>lineName := Some ''73''\<rparr>] \<and>
   \<not> hasValidCoords ([busA, lostBus] ! 1) \<and>
   \<not> hasValidCoords ([busB, lostBus\<lparr>lineName := Some ''73''\<rparr>] ! 1) \<and>
   cacheBefore None [busA, lostBus] Map.empty 1 (vehicleKey ([busA, lostBus] ! 1) 1) = None \<and>
   cacheBefore (Some busB) [busB, lostBus\<lparr>lineName := Some ''73''\<rparr>] cacheA 1
     (vehicleKey ([busB, lostBus\<lparr>lineName := Some ''73''\<rparr>] ! 1) 1) = None \<and>
   idHash (vehicleKey ([busA, lostBus] ! 1) 1) = idHash ''BUS1'' \<and>
   idHash (vehicleKey ([busB, lostBus\<lparr>lineName := Some ''73''\<rparr>] ! 1) 1) = idHash ''BUS1'' \<and>
   currentLat (fst (processVehicles None [busA, lostBus] Map.empty) ! 1) =
     Some (fallbackLat (idHash ''BUS1'') 1) \<and>
   currentLat (fst (processVehicles (Some busB) [busB, lostBus\<lparr>lineName := Some ''73''\<rparr>] cacheA) ! 1) =
     currentLat (fst (processVehicles None [busA, lostBus] Map.empty) ! 1) \<and>
   currentLon (fst (processVehicles (Some busB) [busB, lostBus\<lparr>lineName := Some ''73''\<rparr>] cacheA) ! 1) =
     currentLon (fst (processVehicles None [busA, lostBus] Map.empty) ! 1)"
proof -
  let ?vs = "[busA, lostBus]" and ?ws = "[busB, lostBus\<lparr>lineName := Some ''73''\<rparr>]"
  have h: "1 < length ?vs" "1 < length ?ws"
    "\<not> hasValidCoords (?vs ! 1)" "\<not> hasValidCoords (?ws ! 1)"
    "cacheBefore None ?vs Map.empty 1 (vehicleKey (?vs ! 1) 1) = None"
    "cacheBefore (Some busB) ?ws cacheA 1 (vehicleKey (?ws ! 1) 1) = None"
    "idHash (vehicleKey (?vs ! 1) 1) = idHash ''BUS1''"
    "idHash (vehicleKey (?ws ! 1) 1) = idHash ''BUS1''"
    by (simp_all add: step_defs sample_defs)
  show ?thesis
    using generated_position [OF h] h by blast
qed

subsection \<open>The cache is keyed by vehicle id\<close>

text \<open>The key of a vehicle that has a \<open>vehicleId\<close> is that id.\<close>

lemma vehicleKey_truthy: "vehicleId v = Some s \<Longrightarrow> s \<noteq> [] \<Longrightarrow> vehicleKey v i = s"
  by (simp add: vehicleKey_def)



subsection \<open>Jittered positions\<close>








subsection \<open>The heading\<close>

lemma parseInt_integer: "parseInt b = NaN \<or> isInteger (parseInt b)"
  by (auto simp: parseInt_def Let_def split: option.splits)

lemma processVehicle_heading:
  "heading (fst (processVehicle sel all cache v i)) = Some (mathFloor (headingOf v))"
  by (simp add: processVehicle_def split: prod.splits)

text \<open>
  C9 (as amended). The heading of a processed vehicle is the floor of the reported heading
  when that is truthy. Otherwise, when the bearing is a non-empty string, it is
  \<open>parseInt\<close> of the bearing as it comes: an integer, which may be 0, or \<open>NaN\<close> when the
  bearing does not start with a numeral. Otherwise it is 180 for the direction
  \<open>inbound\<close> and 0 for any other. So the heading is an integer or \<open>NaN\<close>, and a vehicle
  that reports the heading 0 gets the heading it would get with no heading at all.
\<close>

theorem processed_heading:
  "heading (fst (processVehicle sel all cache v i)) =
     Some (let fromBearing =
                 (case bearing v of
                    Some b \<Rightarrow>
                      (if b \<noteq> [] then parseInt b
                       else if direction v = Some ''inbound'' then Num 180 else Num 0)
                  | None \<Rightarrow> if direction v = Some ''inbound'' then Num 180 else Num 0)
           in case heading v of
                Some (Num h) \<Rightarrow> if h \<noteq> 0 then Num (of_int \<lfloor>h\<rfloor>) else fromBearing
              | _ \<Rightarrow> fromBearing) \<and>
   (parseInt b = NaN \<or> isInteger (parseInt b)) \<and>
   heading (fst (processVehicle sel all cache (v\<lparr>heading := Some (Num 0)\<rparr>) i)) =
     heading (fst (processVehicle sel all cache (v\<lparr>heading := None\<rparr>) i)) \<and>
   (heading (fst (processVehicle sel all cache v i)) = Some NaN \<or>
    (\<exists>x. heading (fst (processVehicle sel all cache v i)) = Some x \<and> isInteger x))"
proof -
  have f: "mathFloor (parseInt s) = parseInt s" for s
    by (auto simp: parseInt_def Let_def split: option.splits)
  have i: "isInteger (mathFloor x) \<or> mathFloor x = NaN" for x
    by (cases x) simp_all
  show ?thesis
    using i [of "headingOf v"] parseInt_integer [of b]
    by (auto simp: processVehicle_heading headingOf_def truthyJs_def truthyStr_def f Let_def
        split: option.splits jsnumber.splits)
qed

text \<open>
  The claim as stated fails: the code tests the bearing, not the parsed bearing, for
  truthiness. With the bearing \<open>0\<close> and the direction \<open>inbound\<close> the heading is 0, where
  the first truthy value is the default 180; with the bearing \<open>N\<close> the heading is \<open>NaN\<close>,
  which is not an integer.
\<close>

theorem heading_counterexample:
  "heading (fst (processVehicle None [zeroBearing] Map.empty zeroBearing 0)) = Some (Num 0) \<and>
   claimedHeading zeroBearing = Num 180 \<and>
   heading (fst (processVehicle None [letterBearing] Map.empty letterBearing 0)) = Some NaN \<and>
   \<not> isInteger NaN"
  by (simp add: processVehicle_heading headingOf_def claimedHeading_def truthyJs_def truthyStr_def
      parseInt_def isStrWhiteSpace_def digitVal_def zeroBearing_def letterBearing_def
      noProperties_def)

subsection \<open>The marker animation\<close>

lemma eased_mono: "0 \<le> t1 \<Longrightarrow> t1 \<le> t2 \<Longrightarrow> t2 \<le> 1 \<Longrightarrow> eased t1 \<le> eased t2"
proof -
  assume a: "0 \<le> t1" "t1 \<le> t2" "t2 \<le> 1"
  have "eased t2 - eased t1 = (t2 - t1) * (2 - t1 - t2)"
    by (simp add: eased_def algebra_simps)
  moreover have "0 \<le> (t2 - t1) * (2 - t1 - t2)"
    using a by (intro mult_nonneg_nonneg) linarith+
  ultimately show ?thesis by linarith
qed

lemma eased_range: "0 \<le> t \<Longrightarrow> t \<le> 1 \<Longrightarrow> 0 \<le> eased t \<and> eased t \<le> 1"
  using eased_mono [of 0 t] eased_mono [of t 1] by (simp add: eased_def)

lemma timeProgress_range:
  assumes "cur < prev" "0 \<le> prev"
  shows "0 \<le> timeProgress prev cur \<and> timeProgress prev cur \<le> 1"
  using assms by (cases "prev = 0") (simp_all add: timeProgress_def)

lemma markerEffect_Animation:
  assumes "markerEffect prevData v = Animation from to progress"
  shows "animates prevData v" "prevLat prevData = Some (fst from)" "prevLon prevData = Some (snd from)"
    "map_option (\<lambda>n. (stopLat n, stopLon n)) (nextStopCoords v) = Some to"
    "progress = timeProgress (prevTimeToStation prevData) (currentTimeToStation v)"
  using assms
  by (auto simp: markerEffect_def split: if_splits option.splits)

lemmas modal_defs = markerEffect_def animates_def currentTimeToStation_def currentLatOf_def
  currentLonOf_def initialPrevPos_def truthyNum_def timeProgress_def movingBus_def noProperties_def

text \<open>
  C3 (as amended). The easing function \<open>eased t = 1 - (1 - t) * (1 - t)\<close> is
  non-decreasing on the interval from 0 to 1, with \<open>eased 0 = 0\<close> and \<open>eased 1 = 1\<close>. When
  the effect starts an animation and the previous time to station is not negative, every
  frame puts the marker on the segment from the previous position to the next stop, and
  the last frame puts it at \<open>prev + (next - prev) * progress\<close>, where \<open>progress\<close> is the
  smaller of 1 and \<open>(prevTimeToStation - currentTimeToStation) / maxTime\<close>, \<open>maxTime\<close>
  being the previous time to station, or 60 when that is 0.
\<close>

theorem eased_animation:
  assumes "0 \<le> t1" and "t1 \<le> t2" and "t2 \<le> 1"
    and "markerEffect prevData v = Animation from to progress"
    and "0 \<le> prevTimeToStation prevData"
    and "start \<le> timestamp"
  shows "eased t1 \<le> eased t2 \<and> eased 0 = 0 \<and> eased 1 = 1 \<and>
         prevLat prevData = Some (fst from) \<and> prevLon prevData = Some (snd from) \<and>
         map_option (\<lambda>n. (stopLat n, stopLon n)) (nextStopCoords v) = Some to \<and>
         onSegment from to (framePosition from to progress (frameProgress start timestamp)) \<and>
         framePosition from to progress 1 =
           (fst from + (fst to - fst from) * progress, snd from + (snd to - snd from) * progress) \<and>
         progress =
           min 1 ((prevTimeToStation prevData - currentTimeToStation v) /
                  (if prevTimeToStation prevData \<noteq> 0 then prevTimeToStation prevData else 60))"
proof -
  note m = markerEffect_Animation [OF assms(4)]
  have "currentTimeToStation v < prevTimeToStation prevData"
    using m(1) by (simp add: animates_def)
  then have p: "0 \<le> progress \<and> progress \<le> 1"
    unfolding m(5) using assms(5) by (rule timeProgress_range)
  let ?t = "frameProgress start timestamp"
  have "0 \<le> ?t \<and> ?t \<le> 1" using assms(6) by (simp add: frameProgress_def)
  then have e: "0 \<le> eased ?t \<and> eased ?t \<le> 1" using eased_range by blast
  have s: "0 \<le> eased ?t * progress \<and> eased ?t * progress \<le> 1"
    using e p by (simp add: mult_le_one)
  have "framePosition from to progress ?t =
          (fst from + (eased ?t * progress) * (fst to - fst from),
           snd from + (eased ?t * progress) * (snd to - snd from))"
    by (simp add: framePosition_def algebra_simps)
  with s have seg: "onSegment from to (framePosition from to progress ?t)"
    unfolding onSegment_def by blast
  have fin: "framePosition from to progress 1 =
           (fst from + (fst to - fst from) * progress, snd from + (snd to - snd from) * progress)"
    by (simp add: framePosition_def eased_def)
  have pr: "progress =
           min 1 ((prevTimeToStation prevData - currentTimeToStation v) /
                  (if prevTimeToStation prevData \<noteq> 0 then prevTimeToStation prevData else 60))"
    unfolding m(5) by (simp add: timeProgress_def Let_def)
  have z: "eased 0 = 0" "eased 1 = 1" by (simp_all add: eased_def)
  from eased_mono [OF assms(1-3)] z m(2,3,4) seg fin pr show ?thesis by blast
qed

theorem eased_animation_witness:
  "(0::real) \<le> 1 / 4 \<and> (1 / 4 :: real) \<le> 1 / 2 \<and> (1 / 2 :: real) \<le> 1 \<and>
   markerEffect (initialPrevPos (movingBus\<lparr>timeToStation := Some 120\<rparr>)) movingBus =
     Animation (51.5, - 0.12) (51.6, - 0.2) (1 / 2) \<and>
   0 \<le> prevTimeToStation (initialPrevPos (movingBus\<lparr>timeToStation := Some 120\<rparr>)) \<and>
   (0::real) \<le> 1000 \<and>
   eased (1 / 4) \<le> eased (1 / 2) \<and>
   onSegment (51.5, - 0.12) (51.6, - 0.2)
     (framePosition (51.5, - 0.12) (51.6, - 0.2) (1 / 2) (frameProgress 0 1000))"
proof -
  have h: "(0::real) \<le> 1 / 4" "(1 / 4 :: real) \<le> 1 / 2" "(1 / 2 :: real) \<le> 1"
    "markerEffect (initialPrevPos (movingBus\<lparr>timeToStation := Some 120\<rparr>)) movingBus =
       Animation (51.5, - 0.12) (51.6, - 0.2) (1 / 2)"
    "0 \<le> prevTimeToStation (initialPrevPos (movingBus\<lparr>timeToStation := Some 120\<rparr>))"
    "(0::real) \<le> 1000"
    by (simp_all add: modal_defs)
  show ?thesis
    using eased_animation [OF h] h by blast
qed

text \<open>
  The claim as stated fails for a negative previous time to station: from -5 to -10
  seconds the progress is -1 and the last frame lies on the far side of the previous
  position, off the segment. And from 0 to -30 seconds the divisor is 60, not the previous
  time to station.
\<close>

theorem eased_animation_counterexample:
  "markerEffect (initialPrevPos (movingBus\<lparr>timeToStation := Some (- 5)\<rparr>))
       (movingBus\<lparr>timeToStation := Some (- 10)\<rparr>) =
     Animation (51.5, - 0.12) (51.6, - 0.2) (- 1) \<and>
   framePosition (51.5, - 0.12) (51.6, - 0.2) (- 1) 1 = (51.4, - 0.04) \<and>
   \<not> onSegment (51.5, - 0.12) (51.6, - 0.2) (framePosition (51.5, - 0.12) (51.6, - 0.2) (- 1) 1) \<and>
   markerEffect (initialPrevPos (movingBus\<lparr>timeToStation := Some 0\<rparr>))
       (movingBus\<lparr>timeToStation := Some (- 30)\<rparr>) =
     Animation (51.5, - 0.12) (51.6, - 0.2) (1 / 2)"
proof -
  have f: "framePosition (51.5, - 0.12) (51.6, - 0.2) (- 1) 1 = (51.4, - 0.04)"
    by (simp add: framePosition_def eased_def)
  have "\<not> onSegment (51.5, - 0.12) (51.6, - 0.2) (51.4, - 0.04)"
  proof
    assume "onSegment (51.5, - 0.12) (51.6, - 0.2) (51.4, - 0.04)"
    then obtain s :: real where s: "0 \<le> s" and e: "51.4 = 51.5 + s * (51.6 - 51.5)"
      by (auto simp: onSegment_def)
    from e have "s = - 1" by simp
    with s show False by simp
  qed
  with f show ?thesis by (simp add: modal_defs)
qed



subsection \<open>The list of live vehicles\<close>

lemma render_ErrorScreen: "render st = ErrorScreen e \<Longrightarrow> vehicles st = []"
  by (auto simp: render_def split: if_splits)

text \<open>
  C7. When the request for the vehicles is rejected, or its response is not ok, or its
  body cannot be read, the error is set and the list of vehicles and the selected vehicle
  stay as they were; the grid of a non-empty list stays on the screen. The error screen
  is shown only in a state whose list of vehicles is empty.
\<close>

theorem fetch_failure_keeps_vehicles:
  assumes "outcome = FetchRejected msg \<or> outcome = ResponseNotOk \<or> outcome = BodyRejected msg"
    and "render st' = ErrorScreen e"
  shows "vehicles (fetchVehicles outcome st) = vehicles st \<and>
         selectedVehicle (fetchVehicles outcome st) = selectedVehicle st \<and>
         error (fetchVehicles outcome st) =
           Some (if outcome = ResponseNotOk then ''Failed to fetch vehicles'' else msg) \<and>
         \<not> isInitialLoad (fetchVehicles outcome st) \<and>
         (if vehicles st = [] then
            render (fetchVehicles outcome st) =
              (if outcome \<noteq> ResponseNotOk \<and> msg = [] then VehicleGrid []
               else ErrorScreen (if outcome = ResponseNotOk then ''Failed to fetch vehicles'' else msg))
          else render (fetchVehicles outcome st) = VehicleGrid (vehicles st)) \<and>
         vehicles st' = []"
  using assms(1) render_ErrorScreen [OF assms(2)]
  by (auto simp: fetchVehicles_def finishLoad_def render_def truthyStr_def)

theorem fetch_failure_keeps_vehicles_witness:
  "(ResponseNotOk = FetchRejected [] \<or> ResponseNotOk = ResponseNotOk \<or> ResponseNotOk = BodyRejected []) \<and>
   render (fetchVehicles (FetchRejected ''Failed to fetch'') startState) = ErrorScreen ''Failed to fetch'' \<and>
   vehicles (fetchVehicles ResponseNotOk loadedState) = vehicles loadedState \<and>
   selectedVehicle (fetchVehicles ResponseNotOk loadedState) = selectedVehicle loadedState \<and>
   vehicles (fetchVehicles (FetchRejected ''Failed to fetch'') startState) = []"
proof -
  have h: "ResponseNotOk = FetchRejected [] \<or> ResponseNotOk = ResponseNotOk \<or> ResponseNotOk = BodyRejected []"
    "render (fetchVehicles (FetchRejected ''Failed to fetch'') startState) = ErrorScreen ''Failed to fetch''"
    by (simp_all add: fetchVehicles_def finishLoad_def render_def truthyStr_def startState_def)
  show ?thesis
    using fetch_failure_keeps_vehicles [OF h, of loadedState] h by blast
qed

end
